theory Spec2Isabelle
  imports Complex_Main
begin

section \<open>Susceptibility distortion correction workflows (fmriprep/workflows/fieldmap/unwarp.py)\<close>

subsection \<open>Errors\<close>

text \<open>
  Every exception the Python code can raise in the modelled functions is a value:
  a missing dictionary key, an out-of-range tuple index, a method called on a value
  that is not a string, a file that cannot be loaded, a boolean mask whose shape does
  not fit the array, and the exception of \<open>Workflow.connect\<close> for an input that is
  already is_connected.
\<close>

datatype error =
    KeyError string
  | IndexError
  | AttributeError
  | FileNotFoundError string
  | TypeError
  | AlreadyConnected string string

subsection \<open>Nodes, edges and workflows\<close>

text \<open>
  A node of the pipeline engine: its name, the interface class it wraps, the iterfield
  when it is a \<open>pe.MapNode\<close> (\<open>None\<close> for a plain \<open>pe.Node\<close>) and the inputs
  fixed at build time (constructor arguments, then assignments to \<open>.inputs\<close>).
\<close>

datatype param =
    PBool bool
  | PInt int
  | PStr string
  | PStrs "string list"
  | PFun string
  | PDicts "(string \<rightharpoonup> string) list"

record node =
  nname :: string
  interface :: string
  iterfield :: "string list option"
  inputs :: "(string \<times> param) list"

text \<open>
  The source end of a connection is an output field, or a pair of an output field and
  a function applied to its value, as in \<open>(('out_dict', _get_ec), 'dwell_time')\<close>.
\<close>

datatype source = Port string | PortFn string string

record edge =
  src :: string
  src_port :: source
  dst :: string
  dst_port :: string

record workflow =
  wname :: string
  nodes :: "node list"
  edges :: "edge list"

definition Workflow :: "string \<Rightarrow> workflow" where
  "Workflow name = \<lparr>wname = name, nodes = [], edges = []\<rparr>"

definition Node :: "string \<Rightarrow> (string \<times> param) list \<Rightarrow> string \<Rightarrow> node" where
  "Node iface args name =
     \<lparr>nname = name, interface = iface, iterfield = None, inputs = args\<rparr>"

definition MapNode :: "string \<Rightarrow> (string \<times> param) list \<Rightarrow> string list \<Rightarrow> string \<Rightarrow> node" where
  "MapNode iface args iterfld name =
     \<lparr>nname = name, interface = iface, iterfield = Some iterfld, inputs = args\<rparr>"

definition set_input :: "node \<Rightarrow> string \<Rightarrow> param \<Rightarrow> node" where
  "set_input n k v = n\<lparr>inputs := inputs n @ [(k, v)]\<rparr>"

definition has_node :: "workflow \<Rightarrow> string \<Rightarrow> bool" where
  "has_node g n = (n \<in> set (map nname (nodes g)))"

definition add_node :: "workflow \<Rightarrow> node \<Rightarrow> workflow" where
  "add_node g n = (if has_node g (nname n) then g else g\<lparr>nodes := nodes g @ [n]\<rparr>)"

definition is_connected :: "workflow \<Rightarrow> string \<Rightarrow> string \<Rightarrow> bool" where
  "is_connected g d p = list_ex (\<lambda>e. dst e = d \<and> dst_port e = p) (edges g)"

text \<open>
  \<open>Workflow.connect\<close> of the pipeline engine, one field pair at a time: both nodes
  join the graph, and connecting to an input field that already has an incoming
  connection raises.
\<close>

fun connect_fields :: "workflow \<Rightarrow> node \<Rightarrow> node \<Rightarrow> (source \<times> string) list \<Rightarrow> error + workflow" where
  "connect_fields g s d [] = Inr (add_node (add_node g s) d)"
| "connect_fields g s d ((sp, dp) # ps) =
     (if is_connected g (nname d) dp then Inl (AlreadyConnected (nname d) dp)
      else connect_fields
             ((add_node (add_node g s) d)
                \<lparr>edges := edges g @ [\<lparr>src = nname s, src_port = sp, dst = nname d, dst_port = dp\<rparr>]\<rparr>)
             s d ps)"

fun connect :: "workflow \<Rightarrow> (node \<times> node \<times> (source \<times> string) list) list \<Rightarrow> error + workflow" where
  "connect g [] = Inr g"
| "connect g ((s, d, ps) # cs) =
     (case connect_fields g s d ps of Inl e \<Rightarrow> Inl e | Inr g' \<Rightarrow> connect g' cs)"

subsection \<open>The fieldmap pipeline\<close>

definition init_sdc_unwarp_wf ::
  "(string \<Rightarrow> string \<Rightarrow> string) \<Rightarrow> string \<Rightarrow> int \<Rightarrow> bool \<Rightarrow> bool \<Rightarrow> bool \<Rightarrow> string
     \<Rightarrow> error + workflow" where
  "init_sdc_unwarp_wf resource_filename reportlets_dir ants_nthreads fmap_bspline fmap_demean
       debug name =
    (let workflow = Workflow name;
         inputnode = Node ''niu.IdentityInterface''
           [(''fields'', PStrs [''in_reference'', ''in_mask'', ''name_source'',
                               ''fmap_ref'', ''fmap_mask'', ''fmap''])] ''inputnode'';
         outputnode = Node ''niu.IdentityInterface''
           [(''fields'', PStrs [''out_reference'', ''out_warp'', ''out_mask'',
                               ''out_jacobian'', ''out_mask_report''])] ''outputnode'';
         meta = Node ''ReadSidecarJSON'' [] ''meta'';
         explicit_mask_epi = Node ''fsl.ApplyMask'' [] ''explicit_mask_epi'';
         ants_settings =
           (if debug then resource_filename ''fmriprep'' ''data/fmap-any_registration_testing.json''
            else resource_filename ''fmriprep'' ''data/fmap-any_registration.json'');
         fmap2ref_reg = set_input (Node ''ANTSRegistrationRPT''
           [(''generate_report'', PBool True), (''from_file'', PStr ants_settings),
            (''output_inverse_warped_image'', PBool True), (''output_warped_image'', PBool True),
            (''num_threads'', PInt ants_nthreads)] ''fmap2ref_reg'')
           ''interface.num_threads'' (PInt ants_nthreads);
         ds_reg = Node ''DerivativesDataSink''
           [(''base_directory'', PStr reportlets_dir), (''suffix'', PStr ''fmap_reg'')] ''ds_reg'';
         fmap2ref_apply = Node ''ANTSApplyTransformsRPT''
           [(''generate_report'', PBool True), (''dimension'', PInt 3),
            (''interpolation'', PStr ''BSpline''), (''float'', PBool True)] ''fmap2ref_apply'';
         fmap_mask2ref_apply = Node ''ANTSApplyTransformsRPT''
           [(''generate_report'', PBool False), (''dimension'', PInt 3),
            (''interpolation'', PStr ''NearestNeighbor''), (''float'', PBool True)]
           ''fmap_mask2ref_apply'';
         ds_reg_vsm = Node ''DerivativesDataSink''
           [(''base_directory'', PStr reportlets_dir), (''suffix'', PStr ''fmap_reg_vsm'')]
           ''ds_reg_vsm'';
         torads = Node ''niu.Function'' [(''function'', PFun ''_hz2rads'')] ''torads'';
         gen_vsm = Node ''fsl.FUGUE'' [(''save_unmasked_shift'', PBool True)] ''gen_vsm'';
         vsm2dfm = Node ''itk.FUGUEvsm2ANTSwarp'' [] ''vsm2dfm'';
         jac_dfm = Node ''CreateJacobianDeterminantImage''
           [(''imageDimension'', PInt 3), (''outputImage'', PStr ''jacobian.nii.gz'')] ''jac_dfm'';
         unwarp_reference = Node ''ANTSApplyTransformsRPT''
           [(''dimension'', PInt 3), (''generate_report'', PBool False), (''float'', PBool True),
            (''interpolation'', PStr ''LanczosWindowedSinc'')] ''unwarp_reference'';
         fieldmap_fov_mask = Node ''niu.Function'' [(''function'', PFun ''_fill_with_ones'')]
           ''fieldmap_fov_mask'';
         fmap_fov2ref_apply = Node ''ANTSApplyTransformsRPT''
           [(''generate_report'', PBool False), (''dimension'', PInt 3),
            (''interpolation'', PStr ''NearestNeighbor''), (''float'', PBool True)]
           ''fmap_fov2ref_apply'';
         apply_fov_mask = Node ''fsl.ApplyMask'' [] ''apply_fov_mask'';
         ref_msk_post = Node ''ComputeEPIMask''
           [(''generate_report'', PBool True), (''dilation'', PInt 1)] ''ref_msk_post''
     in
     case connect workflow [
        (inputnode, meta, [(Port ''name_source'', ''in_file'')]),
        (inputnode, explicit_mask_epi, [(Port ''in_reference'', ''in_file''),
                                        (Port ''in_mask'', ''mask_file'')]),
        (inputnode, fmap2ref_reg, [(Port ''fmap_ref'', ''moving_image'')]),
        (inputnode, fmap2ref_apply, [(Port ''in_reference'', ''reference_image'')]),
        (fmap2ref_reg, fmap2ref_apply, [(Port ''composite_transform'', ''transforms'')]),
        (inputnode, fmap_mask2ref_apply, [(Port ''in_reference'', ''reference_image'')]),
        (fmap2ref_reg, fmap_mask2ref_apply, [(Port ''composite_transform'', ''transforms'')]),
        (inputnode, ds_reg_vsm, [(Port ''name_source'', ''source_file'')]),
        (fmap2ref_apply, ds_reg_vsm, [(Port ''out_report'', ''in_file'')]),
        (explicit_mask_epi, fmap2ref_reg, [(Port ''out_file'', ''fixed_image'')]),
        (inputnode, ds_reg, [(Port ''name_source'', ''source_file'')]),
        (fmap2ref_reg, ds_reg, [(Port ''out_report'', ''in_file'')]),
        (inputnode, fmap2ref_apply, [(Port ''fmap'', ''input_image'')]),
        (inputnode, fmap_mask2ref_apply, [(Port ''fmap_mask'', ''input_image'')]),
        (fmap2ref_apply, torads, [(Port ''output_image'', ''in_file'')]),
        (meta, gen_vsm, [(PortFn ''out_dict'' ''_get_ec'', ''dwell_time''),
                         (PortFn ''out_dict'' ''_get_pedir_fugue'', ''unwarp_direction'')]),
        (meta, vsm2dfm, [(PortFn ''out_dict'' ''_get_pedir_bids'', ''pe_dir'')]),
        (torads, gen_vsm, [(Port ''out'', ''fmap_in_file'')]),
        (vsm2dfm, unwarp_reference, [(Port ''out_file'', ''transforms'')]),
        (inputnode, unwarp_reference, [(Port ''in_reference'', ''reference_image'')]),
        (inputnode, unwarp_reference, [(Port ''in_reference'', ''input_image'')]),
        (vsm2dfm, outputnode, [(Port ''out_file'', ''out_warp'')]),
        (vsm2dfm, jac_dfm, [(Port ''out_file'', ''deformationField'')]),
        (inputnode, fieldmap_fov_mask, [(Port ''fmap_ref'', ''in_file'')]),
        (fieldmap_fov_mask, fmap_fov2ref_apply, [(Port ''out'', ''input_image'')]),
        (inputnode, fmap_fov2ref_apply, [(Port ''in_reference'', ''reference_image'')]),
        (fmap2ref_reg, fmap_fov2ref_apply, [(Port ''composite_transform'', ''transforms'')]),
        (fmap_fov2ref_apply, apply_fov_mask, [(Port ''output_image'', ''mask_file'')]),
        (unwarp_reference, apply_fov_mask, [(Port ''output_image'', ''in_file'')]),
        (apply_fov_mask, ref_msk_post, [(Port ''out_file'', ''in_file'')]),
        (apply_fov_mask, outputnode, [(Port ''out_file'', ''out_reference'')]),
        (ref_msk_post, outputnode, [(Port ''mask_file'', ''out_mask'')]),
        (ref_msk_post, outputnode, [(Port ''out_report'', ''out_mask_report'')]),
        (jac_dfm, outputnode, [(Port ''jacobian_image'', ''out_jacobian'')])]
     of Inl e \<Rightarrow> Inl e
      | Inr workflow \<Rightarrow>
     (case (if \<not> fmap_bspline
            then connect workflow
                   [(fmap_mask2ref_apply, gen_vsm, [(Port ''output_image'', ''mask_file'')])]
            else Inr workflow)
      of Inl e \<Rightarrow> Inl e
       | Inr workflow \<Rightarrow>
      (if fmap_demean then
         (let demean = Node ''niu.Function'' [(''function'', PFun ''_demean'')] ''demean''
          in connect workflow [
               (gen_vsm, demean, [(Port ''shift_out_file'', ''in_file'')]),
               (fmap_mask2ref_apply, demean, [(Port ''output_image'', ''in_mask'')]),
               (demean, vsm2dfm, [(Port ''out'', ''in_file'')])])
       else
         connect workflow [
           (gen_vsm, vsm2dfm, [(Port ''shift_out_file'', ''in_file'')])])))"

subsection \<open>The PEPOLAR pipeline\<close>

text \<open>
  The list comprehension \<open>[fmap['epi'] for fmap in fmaps]\<close>: each element of
  \<open>fmaps\<close> is a dictionary, and a dictionary without the key raises.
\<close>

fun epi_files :: "(string \<rightharpoonup> string) list \<Rightarrow> error + string list" where
  "epi_files [] = Inr []"
| "epi_files (fmap # fmaps) =
     (case fmap ''epi'' of
        None \<Rightarrow> Inl (KeyError ''epi'')
      | Some f \<Rightarrow> (case epi_files fmaps of Inl e \<Rightarrow> Inl e | Inr fs \<Rightarrow> Inr (f # fs)))"

definition init_pepolar_unwarp_report_wf ::
  "(string \<rightharpoonup> string) list \<Rightarrow> string \<Rightarrow> string \<Rightarrow> error + workflow" where
  "init_pepolar_unwarp_report_wf fmaps bids_dir name =
    (case epi_files fmaps of Inl e \<Rightarrow> Inl e | Inr epis \<Rightarrow>
    (let workflow = Workflow name;
         inputnode = Node ''niu.IdentityInterface''
           [(''fields'', PStrs [''in_reference'', ''in_mask'', ''name_source''])] ''inputnode'';
         outputnode = Node ''niu.IdentityInterface''
           [(''fields'', PStrs [''out_reference'', ''out_warp'', ''out_mask'',
                               ''out_jacobian'', ''out_mask_report''])] ''outputnode'';
         mag_inu = set_input (MapNode ''ants.N4BiasFieldCorrection'' [(''dimension'', PInt 3)]
           [''input_image''] ''mag_inu'') ''input_image'' (PStrs epis);
         cphdr = set_input (MapNode ''CopyHeader'' [] [''hdr_file'', ''in_file''] ''cphdr'')
           ''hdr_file'' (PStrs epis);
         skullstrip = MapNode ''ComputeEPIMask'' [(''dilation'', PInt 1)] [''in_file'']
           ''skullstrip'';
         apply_skullstrip = set_input (MapNode ''fsl.ApplyMask'' [] [''mask_file'', ''in_file'']
           ''apply_skullstrip'') ''in_file'' (PStrs epis);
         explicit_mask_epi = Node ''fsl.ApplyMask'' [] ''explicit_mask_epi'';
         merge_list = Node ''niu.Merge'' [(''numinputs'', PInt 2)] ''merge_list'';
         merge = Node ''fsl.Merge'' [(''dimension'', PStr ''t'')] ''merge'';
         generate_idata = set_input (set_input
           (Node ''niu.Function'' [(''function'', PFun ''_generate_idata'')] ''generate_idata'')
           ''bids_dir'' (PStr bids_dir)) ''fmaps'' (PDicts fmaps);
         topup = Node ''fsl.TOPUP'' [] ''topup'';
         to_ants = Node ''niu.Function'' [(''function'', PFun ''_add_dimension'')] ''to_ants'';
         cphdr_warp = Node ''CopyHeader'' [] ''cphdr_warp'';
         unwarp_reference = Node ''ANTSApplyTransformsRPT''
           [(''dimension'', PInt 3), (''generate_report'', PBool False), (''float'', PBool True),
            (''interpolation'', PStr ''LanczosWindowedSinc'')] ''unwarp_reference'';
         apply_jacobian = Node ''fsl.BinaryMaths'' [(''operation'', PStr ''mul'')]
           ''apply_jacobian'';
         ref_msk_post = Node ''ComputeEPIMask''
           [(''generate_report'', PBool True), (''dilation'', PInt 1)] ''ref_msk_post''
     in
     connect workflow [
        (inputnode, explicit_mask_epi, [(Port ''in_reference'', ''in_file''),
                                        (Port ''in_mask'', ''mask_file'')]),
        (inputnode, merge_list, [(Port ''in_reference'', ''in1'')]),
        (mag_inu, cphdr, [(Port ''output_image'', ''in_file'')]),
        (cphdr, skullstrip, [(Port ''out_file'', ''in_file'')]),
        (skullstrip, apply_skullstrip, [(Port ''mask_file'', ''mask_file'')]),
        (cphdr, merge_list, [(Port ''out_file'', ''in2'')]),
        (merge_list, merge, [(Port ''out'', ''in_files'')]),
        (inputnode, generate_idata, [(Port ''name_source'', ''name_source'')]),
        (generate_idata, topup, [(Port ''out'', ''encoding_file'')]),
        (merge, topup, [(Port ''merged_file'', ''in_file'')]),
        (inputnode, cphdr_warp, [(Port ''in_reference'', ''hdr_file'')]),
        (topup, cphdr_warp, [(PortFn ''out_warps'' ''_pick_first'', ''in_file'')]),
        (cphdr_warp, to_ants, [(Port ''out_file'', ''in_file'')]),
        (to_ants, unwarp_reference, [(Port ''out'', ''transforms'')]),
        (inputnode, unwarp_reference, [(Port ''in_reference'', ''reference_image'')]),
        (inputnode, unwarp_reference, [(Port ''in_reference'', ''input_image'')]),
        (unwarp_reference, apply_jacobian, [(Port ''output_image'', ''in_file'')]),
        (topup, apply_jacobian, [(PortFn ''out_jacs'' ''_pick_first'', ''operand_file'')]),
        (apply_jacobian, ref_msk_post, [(Port ''out_file'', ''in_file'')]),
        (unwarp_reference, outputnode, [(Port ''output_image'', ''out_reference'')]),
        (ref_msk_post, outputnode, [(Port ''mask_file'', ''out_mask'')]),
        (ref_msk_post, outputnode, [(Port ''out_report'', ''out_mask_report'')]),
        (to_ants, outputnode, [(Port ''out'', ''out_warp'')]),
        (topup, outputnode, [(PortFn ''out_jacs'' ''_pick_first'', ''out_jacobian'')])]))"

subsection \<open>Reading a built graph\<close>

text \<open>
  The connections that end in input field \<open>p\<close> of node \<open>d\<close>, the test for one
  particular connection, the nodes a node sends data to, and the value an input was
  given at build time (a later assignment replaces an earlier one).
\<close>

definition feeders :: "workflow \<Rightarrow> string \<Rightarrow> string \<Rightarrow> (string \<times> source) list" where
  "feeders g d p =
     map (\<lambda>e. (src e, src_port e)) (filter (\<lambda>e. dst e = d \<and> dst_port e = p) (edges g))"

definition feeds :: "workflow \<Rightarrow> string \<Rightarrow> source \<Rightarrow> string \<Rightarrow> string \<Rightarrow> bool" where
  "feeds g s sp d dp =
     list_ex (\<lambda>e. src e = s \<and> src_port e = sp \<and> dst e = d \<and> dst_port e = dp) (edges g)"

definition successors :: "workflow \<Rightarrow> string \<Rightarrow> string list" where
  "successors g s = map dst (filter (\<lambda>e. src e = s) (edges g))"

definition static_input :: "workflow \<Rightarrow> string \<Rightarrow> string \<Rightarrow> param option" where
  "static_input g n k =
     (case find (\<lambda>x. nname x = n) (nodes g) of
        None \<Rightarrow> None
      | Some x \<Rightarrow> map_of (rev (inputs x)) k)"

definition edge_rel :: "workflow \<Rightarrow> (string \<times> string) set" where
  "edge_rel g = set (map (\<lambda>e. (src e, dst e)) (edges g))"

definition in_port :: "edge \<Rightarrow> string \<times> string" where
  "in_port e = (dst e, dst_port e)"

definition single_feed :: "workflow \<Rightarrow> bool" where
  "single_feed g = distinct (map in_port (edges g))"

text \<open>The two ways the voxel-shift map can reach the field conversion.\<close>

definition direct_topology :: "workflow \<Rightarrow> bool" where
  "direct_topology g \<longleftrightarrow>
     feeders g ''vsm2dfm'' ''in_file'' = [(''gen_vsm'', Port ''shift_out_file'')] \<and>
     \<not> has_node g ''demean''"

definition demean_topology :: "workflow \<Rightarrow> bool" where
  "demean_topology g \<longleftrightarrow>
     has_node g ''demean'' \<and>
     feeders g ''demean'' ''in_file'' = [(''gen_vsm'', Port ''shift_out_file'')] \<and>
     feeders g ''vsm2dfm'' ''in_file'' = [(''demean'', Port ''out'')] \<and>
     ''vsm2dfm'' \<notin> set (successors g ''gen_vsm'')"

subsection \<open>Helper functions: metadata\<close>

text \<open>
  A sidecar dictionary maps field names to JSON values. Only strings and numbers
  occur in the fields the code reads.
\<close>

datatype json = JStr string | JNum real

definition pick_first :: "'a list \<Rightarrow> error + 'a" where
  "pick_first l = (case l of [] \<Rightarrow> Inl IndexError | x # _ \<Rightarrow> Inr x)"

definition get_pedir_bids :: "(string \<rightharpoonup> json) \<Rightarrow> error + json" where
  "get_pedir_bids in_dict =
     (case in_dict ''PhaseEncodingDirection'' of
        None \<Rightarrow> Inl (KeyError ''PhaseEncodingDirection'')
      | Some v \<Rightarrow> Inr v)"

text \<open>\<open>str.replace\<close> with one-character arguments replaces every occurrence.\<close>

definition replace_char :: "char \<Rightarrow> char \<Rightarrow> string \<Rightarrow> string" where
  "replace_char a b s = map (\<lambda>c. if c = a then b else c) s"

definition get_pedir_fugue :: "(string \<rightharpoonup> json) \<Rightarrow> error + string" where
  "get_pedir_fugue in_dict =
     (case in_dict ''PhaseEncodingDirection'' of
        None \<Rightarrow> Inl (KeyError ''PhaseEncodingDirection'')
      | Some (JNum x) \<Rightarrow> Inl AttributeError
      | Some (JStr s) \<Rightarrow>
          Inr (replace_char CHR ''k'' CHR ''z''
                (replace_char CHR ''j'' CHR ''y'' (replace_char CHR ''i'' CHR ''x'' s))))"

subsection \<open>Helper functions: the acquisition-parameter table\<close>

definition endswith :: "string \<Rightarrow> char \<Rightarrow> bool" where
  "endswith s c = (s \<noteq> [] \<and> last s = c)"

text \<open>The lookup \<open>{'i':0, 'j':1, 'k':2}[key]\<close>.\<close>

definition axis_index :: "string \<Rightarrow> error + nat" where
  "axis_index key =
     (if key = ''i'' then Inr 0
      else if key = ''j'' then Inr 1
      else if key = ''k'' then Inr 2
      else Inl (KeyError key))"

text \<open>\<open>' '.join(line_arr)\<close>.\<close>

fun join :: "string list \<Rightarrow> string" where
  "join [] = []"
| "join [x] = x"
| "join (x # y # ys) = x @ '' '' @ join (y # ys)"

text \<open>
  The body of the loop of \<open>_gen_line\<close> up to the finished \<open>line_arr\<close>. The layout's
  \<open>get_metadata\<close> and Python's \<open>str\<close> are parameters. The steps and their failures
  come in the order of the source: the readout time is read first, then the
  phase-encoding direction is tested for its sign, then its first character is looked up.
\<close>

definition gen_row ::
  "(string \<Rightarrow> string \<rightharpoonup> json) \<Rightarrow> (json \<Rightarrow> string) \<Rightarrow> string \<Rightarrow> error + string list" where
  "gen_row get_metadata py_str in_file =
     (let line_arr = [''0'', ''0'', ''0'', ''0''];
          meta = get_metadata in_file
      in case meta ''TotalReadoutTime'' of
           None \<Rightarrow> Inl (KeyError ''TotalReadoutTime'')
         | Some trt \<Rightarrow>
        (let line_arr = line_arr[3 := py_str trt]
         in case meta ''PhaseEncodingDirection'' of
              None \<Rightarrow> Inl (KeyError ''PhaseEncodingDirection'')
            | Some (JNum x) \<Rightarrow> Inl AttributeError
            | Some (JStr pe) \<Rightarrow>
           (let dir = (if endswith pe CHR ''-'' then ''-1'' else ''1'')
            in case axis_index (take 1 pe) of
                 Inl e \<Rightarrow> Inl e
               | Inr a \<Rightarrow> Inr (line_arr[a := dir]))))"

text \<open>The loop \<open>for i in range(vols)\<close>, appending one line per round.\<close>

fun gen_lines ::
  "(string \<Rightarrow> string \<rightharpoonup> json) \<Rightarrow> (json \<Rightarrow> string) \<Rightarrow> string \<Rightarrow> nat \<Rightarrow> string
     \<Rightarrow> error + string" where
  "gen_lines get_metadata py_str in_file 0 lines = Inr lines"
| "gen_lines get_metadata py_str in_file (Suc n) lines =
     (case gen_row get_metadata py_str in_file of
        Inl e \<Rightarrow> Inl e
      | Inr line_arr \<Rightarrow>
          gen_lines get_metadata py_str in_file n (lines @ join line_arr @ [CHR 0x0A]))"

text \<open>
  \<open>_gen_line\<close>: \<open>nb_shape\<close> gives the shape of the image stored under a path
  (\<open>None\<close> when it cannot be loaded). The volume count is read from the shape, where
  \<open>shape[3]\<close> raises on a shape with fewer than four entries, and is then set to 1.
\<close>

definition gen_line ::
  "(string \<rightharpoonup> nat list) \<Rightarrow> (string \<Rightarrow> string \<rightharpoonup> json) \<Rightarrow> (json \<Rightarrow> string) \<Rightarrow> string \<Rightarrow> bool
     \<Rightarrow> error + string" where
  "gen_line nb_shape get_metadata py_str in_file oneline =
     (case nb_shape in_file of
        None \<Rightarrow> Inl (FileNotFoundError in_file)
      | Some shape \<Rightarrow>
          (case (if length shape = 3 \<or> oneline then Inr 1
                 else if 3 < length shape then Inr (shape ! 3)
                 else Inl IndexError) of
             Inl e \<Rightarrow> Inl e
           | Inr vols \<Rightarrow>
               (let vols = 1 in gen_lines get_metadata py_str in_file vols [])))"

text \<open>The loop \<open>for fmap in fmaps: fp.write(_gen_line(fmap['epi']))\<close> over the text written so far.\<close>

fun write_fmaps ::
  "(string \<rightharpoonup> nat list) \<Rightarrow> (string \<Rightarrow> string \<rightharpoonup> json) \<Rightarrow> (json \<Rightarrow> string)
     \<Rightarrow> (string \<rightharpoonup> string) list \<Rightarrow> string \<Rightarrow> error + string" where
  "write_fmaps nb_shape get_metadata py_str [] fp = Inr fp"
| "write_fmaps nb_shape get_metadata py_str (fmap # fmaps) fp =
     (case fmap ''epi'' of
        None \<Rightarrow> Inl (KeyError ''epi'')
      | Some f \<Rightarrow>
          (case gen_line nb_shape get_metadata py_str f False of
             Inl e \<Rightarrow> Inl e
           | Inr lines \<Rightarrow> write_fmaps nb_shape get_metadata py_str fmaps (fp @ lines)))"

text \<open>
  \<open>_generate_idata\<close>: the result is the text written to \<open>idata.txt\<close>.
  \<open>BIDSLayout\<close> turns the dataset directory into the metadata lookup.
\<close>

definition generate_idata ::
  "(string \<rightharpoonup> nat list) \<Rightarrow> (string \<Rightarrow> string \<Rightarrow> string \<rightharpoonup> json) \<Rightarrow> (json \<Rightarrow> string)
     \<Rightarrow> string \<Rightarrow> (string \<rightharpoonup> string) list \<Rightarrow> string \<Rightarrow> error + string" where
  "generate_idata nb_shape BIDSLayout py_str name_source fmaps bids_dir =
     (let get_metadata = BIDSLayout bids_dir
      in case gen_line nb_shape get_metadata py_str name_source True of
           Inl e \<Rightarrow> Inl e
         | Inr lines \<Rightarrow> write_fmaps nb_shape get_metadata py_str fmaps lines)"


text \<open>
  The acquisition-parameter row in the words of the spec, for comparison with
  \<open>gen_row\<close>: three axis components, of which the one named by the axis letter of the
  volume's phase-encoding direction is \<open>1\<close> or \<open>-1\<close> by its polarity and the other two
  are \<open>0\<close>, then the volume's readout time. There is no row for metadata without a
  readout time or without a direction that starts with an axis letter.
\<close>

definition spec_row :: "(json \<Rightarrow> string) \<Rightarrow> (string \<rightharpoonup> json) \<Rightarrow> string list option" where
  "spec_row py_str meta =
     (case meta ''TotalReadoutTime'' of
        None \<Rightarrow> None
      | Some trt \<Rightarrow>
          (case meta ''PhaseEncodingDirection'' of
             Some (JStr pe) \<Rightarrow>
               (let sign = (if endswith pe CHR ''-'' then ''-1'' else ''1'');
                    axis = take 1 pe
                in if axis = ''i'' then Some [sign, ''0'', ''0'', py_str trt]
                   else if axis = ''j'' then Some [''0'', sign, ''0'', py_str trt]
                   else if axis = ''k'' then Some [''0'', ''0'', sign, py_str trt]
                   else None)
           | _ \<Rightarrow> None))"

definition render :: "string list \<Rightarrow> string" where
  "render r = join r @ [CHR 0x0A]"

subsection \<open>Helper functions: images\<close>

text \<open>
  A voxel value is a number or not-a-number. Arithmetic on the arrays is floating-point
  arithmetic: every operation gives the exact result rounded to the float type of the
  array, and that rounding is the parameter \<open>rnd\<close> of the functions below. Arithmetic
  with not-a-number gives not-a-number, and a comparison with it is false.
\<close>

datatype flt = Fin real | NaN

fun fsub :: "(real \<Rightarrow> real) \<Rightarrow> flt \<Rightarrow> flt \<Rightarrow> flt" where
  "fsub rnd (Fin a) (Fin b) = Fin (rnd (a - b))"
| "fsub rnd _ _ = NaN"

fun fmul :: "(real \<Rightarrow> real) \<Rightarrow> flt \<Rightarrow> flt \<Rightarrow> flt" where
  "fmul rnd (Fin a) (Fin b) = Fin (rnd (a * b))"
| "fmul rnd _ _ = NaN"

fun gt0 :: "flt \<Rightarrow> bool" where
  "gt0 (Fin a) = (0 < a)"
| "gt0 NaN = False"

fun is_fin :: "flt \<Rightarrow> bool" where
  "is_fin (Fin a) = True"
| "is_fin NaN = False"

fun fin_val :: "flt \<Rightarrow> real" where
  "fin_val (Fin a) = a"
| "fin_val NaN = 0"

text \<open>
  An image file: the shape, the affine, the data type the header names (a float type or
  an integer type), the scale factors of the header (slope 1 with intercept 0 is no
  scaling), the other header fields, and the voxel values as \<open>get_data\<close> returns them,
  that is with the scale factors applied, in one list (row-major).
\<close>

datatype dtype = FloatType | IntType

record nifti =
  shape :: "nat list"
  affine :: "real list list"
  header :: "(string \<times> string) list"
  dtype :: dtype
  scl_slope :: real
  scl_inter :: real
  data :: "flt list"


text \<open>
  \<open>get_data\<close> returns an array of integers for an image stored under an integer type
  without scaling, and an array of floats otherwise.
\<close>

definition int_array :: "nifti \<Rightarrow> bool" where
  "int_array nii = (dtype nii = IntType \<and> scl_slope nii = 1 \<and> scl_inter nii = 0)"

text \<open>
  \<open>nb.Nifti1Image(data, affine, header).to_filename(out_file)\<close> for an array of floats
  and the header of a loaded image. The header keeps its data type. Under a float type
  the values are stored as they are, without scaling. Under an integer type nibabel
  stores integers together with a slope and an intercept that it derives from the
  values; that choice is the parameter \<open>nb_scale\<close>, and the file then holds
  \<open>slope * k + intercept\<close> for each stored integer \<open>k\<close>.
\<close>

definition to_filename ::
  "(flt list \<Rightarrow> real \<times> real \<times> int list) \<Rightarrow> nifti \<Rightarrow> flt list \<Rightarrow> nifti" where
  "to_filename nb_scale nii d =
     (case dtype nii of
        FloatType \<Rightarrow> nii\<lparr>scl_slope := 1, scl_inter := 0, data := d\<rparr>
      | IntType \<Rightarrow>
          (case nb_scale d of
             (slope, intercept, raw) \<Rightarrow>
               nii\<lparr>scl_slope := slope, scl_inter := intercept,
                   data := map (\<lambda>k. Fin (slope * real_of_int k + intercept)) raw\<rparr>))"

text \<open>
  \<open>np.median\<close>: not-a-number for an empty selection and for a selection holding
  not-a-number; otherwise the middle of the sorted values, and for an even count the
  mean of the two middle values, computed as their rounded sum divided by two.
\<close>

definition median_real :: "(real \<Rightarrow> real) \<Rightarrow> real list \<Rightarrow> real" where
  "median_real rnd xs =
     (let s = sort xs; n = length s
      in if odd n then s ! (n div 2)
         else rnd (rnd (s ! (n div 2 - 1) + s ! (n div 2)) / 2))"

definition np_median :: "(real \<Rightarrow> real) \<Rightarrow> flt list \<Rightarrow> flt" where
  "np_median rnd xs =
     (if xs = [] then NaN
      else if list_all is_fin xs then Fin (median_real rnd (map fin_val xs))
      else NaN)"

text \<open>
  Boolean-mask indexing \<open>data[msk > 0]\<close>. The mask covers the leading axes of the
  array; each mask voxel stands for a block of \<open>k\<close> consecutive values, where \<open>k\<close> is
  the product of the remaining axes (1 for a mask of the array's shape), and the
  selection is the blocks of the mask voxels above zero.
\<close>

fun select :: "nat \<Rightarrow> flt list \<Rightarrow> flt list \<Rightarrow> flt list" where
  "select k d [] = []"
| "select k d (m # msk) = (if gt0 m then take k d else []) @ select k (drop k d) msk"


text \<open>
  \<open>_demean\<close>. The indexing raises when the mask does not fit the leading axes of the
  field. The median of an empty selection is not-a-number, which the subtraction
  spreads to every voxel; nothing is raised for it. The subtraction is in place: on an
  array of integers its float result cannot be cast back, and that raises.
\<close>

definition demean ::
  "(string \<Rightarrow> string \<Rightarrow> string) \<Rightarrow> (real \<Rightarrow> real) \<Rightarrow> (flt list \<Rightarrow> real \<times> real \<times> int list)
     \<Rightarrow> (string \<rightharpoonup> nifti) \<Rightarrow> string \<Rightarrow> string \<Rightarrow> string option
     \<Rightarrow> error + string \<times> (string \<rightharpoonup> nifti)" where
  "demean genfname rnd nb_scale fs in_file in_mask out_file =
     (let out_file = (case out_file of None \<Rightarrow> genfname in_file ''demeaned'' | Some f \<Rightarrow> f)
      in case fs in_file of
           None \<Rightarrow> Inl (FileNotFoundError in_file)
         | Some nii \<Rightarrow>
        (case fs in_mask of
           None \<Rightarrow> Inl (FileNotFoundError in_mask)
         | Some mnii \<Rightarrow>
             (let msk = data mnii; d = data nii
              in if take (length (shape mnii)) (shape nii) \<noteq> shape mnii then Inl IndexError
                 else (let k = prod_list (drop (length (shape mnii)) (shape nii));
                           m = np_median rnd (select k d msk)
                       in if int_array nii then Inl TypeError
                          else (let d = map (\<lambda>v. fsub rnd v m) d
                                in Inr (out_file,
                                        fs(out_file \<mapsto> to_filename nb_scale nii d)))))))"

subsection \<open>Auxiliary definitions for the graph proofs\<close>

text \<open>
  What a list of connections adds to a graph, an edge as a tuple, the position of a
  node name in a list (for topological orders), and the connections of the two
  pipelines written out as tuples. Lemmas \<open>sdc_build\<close> and \<open>pepolar_build\<close> show that
  the builders return exactly these connections.
\<close>

definition edge_tuple :: "edge \<Rightarrow> string \<times> source \<times> string \<times> string" where
  "edge_tuple e = (src e, src_port e, dst e, dst_port e)"

definition field_edges :: "node \<Rightarrow> node \<Rightarrow> (source \<times> string) list \<Rightarrow> edge list" where
  "field_edges s d ps =
     map (\<lambda>(sp, dp). \<lparr>src = nname s, src_port = sp, dst = nname d, dst_port = dp\<rparr>) ps"

fun conn_edges :: "(node \<times> node \<times> (source \<times> string) list) list \<Rightarrow> edge list" where
  "conn_edges [] = []"
| "conn_edges ((s, d, ps) # cs) = field_edges s d ps @ conn_edges cs"

fun conn_node_list :: "(node \<times> node \<times> (source \<times> string) list) list \<Rightarrow> node list" where
  "conn_node_list [] = []"
| "conn_node_list ((s, d, ps) # cs) = s # d # conn_node_list cs"

fun conn_nodes :: "workflow \<Rightarrow> (node \<times> node \<times> (source \<times> string) list) list \<Rightarrow> node list" where
  "conn_nodes g [] = nodes g"
| "conn_nodes g ((s, d, ps) # cs) = conn_nodes (add_node (add_node g s) d) cs"

definition find_node :: "node list \<Rightarrow> string \<Rightarrow> node option" where
  "find_node ns n = find (\<lambda>x. nname x = n) ns"

fun index_of :: "string list \<Rightarrow> string \<Rightarrow> nat" where
  "index_of [] n = 0"
| "index_of (x # xs) n = (if x = n then 0 else Suc (index_of xs n))"

definition sdc_common :: "(string \<times> source \<times> string \<times> string) list" where
  "sdc_common = [
     (''inputnode'', Port ''name_source'', ''meta'', ''in_file''),
     (''inputnode'', Port ''in_reference'', ''explicit_mask_epi'', ''in_file''),
     (''inputnode'', Port ''in_mask'', ''explicit_mask_epi'', ''mask_file''),
     (''inputnode'', Port ''fmap_ref'', ''fmap2ref_reg'', ''moving_image''),
     (''inputnode'', Port ''in_reference'', ''fmap2ref_apply'', ''reference_image''),
     (''fmap2ref_reg'', Port ''composite_transform'', ''fmap2ref_apply'', ''transforms''),
     (''inputnode'', Port ''in_reference'', ''fmap_mask2ref_apply'', ''reference_image''),
     (''fmap2ref_reg'', Port ''composite_transform'', ''fmap_mask2ref_apply'', ''transforms''),
     (''inputnode'', Port ''name_source'', ''ds_reg_vsm'', ''source_file''),
     (''fmap2ref_apply'', Port ''out_report'', ''ds_reg_vsm'', ''in_file''),
     (''explicit_mask_epi'', Port ''out_file'', ''fmap2ref_reg'', ''fixed_image''),
     (''inputnode'', Port ''name_source'', ''ds_reg'', ''source_file''),
     (''fmap2ref_reg'', Port ''out_report'', ''ds_reg'', ''in_file''),
     (''inputnode'', Port ''fmap'', ''fmap2ref_apply'', ''input_image''),
     (''inputnode'', Port ''fmap_mask'', ''fmap_mask2ref_apply'', ''input_image''),
     (''fmap2ref_apply'', Port ''output_image'', ''torads'', ''in_file''),
     (''meta'', PortFn ''out_dict'' ''_get_ec'', ''gen_vsm'', ''dwell_time''),
     (''meta'', PortFn ''out_dict'' ''_get_pedir_fugue'', ''gen_vsm'', ''unwarp_direction''),
     (''meta'', PortFn ''out_dict'' ''_get_pedir_bids'', ''vsm2dfm'', ''pe_dir''),
     (''torads'', Port ''out'', ''gen_vsm'', ''fmap_in_file''),
     (''vsm2dfm'', Port ''out_file'', ''unwarp_reference'', ''transforms''),
     (''inputnode'', Port ''in_reference'', ''unwarp_reference'', ''reference_image''),
     (''inputnode'', Port ''in_reference'', ''unwarp_reference'', ''input_image''),
     (''vsm2dfm'', Port ''out_file'', ''outputnode'', ''out_warp''),
     (''vsm2dfm'', Port ''out_file'', ''jac_dfm'', ''deformationField''),
     (''inputnode'', Port ''fmap_ref'', ''fieldmap_fov_mask'', ''in_file''),
     (''fieldmap_fov_mask'', Port ''out'', ''fmap_fov2ref_apply'', ''input_image''),
     (''inputnode'', Port ''in_reference'', ''fmap_fov2ref_apply'', ''reference_image''),
     (''fmap2ref_reg'', Port ''composite_transform'', ''fmap_fov2ref_apply'', ''transforms''),
     (''fmap_fov2ref_apply'', Port ''output_image'', ''apply_fov_mask'', ''mask_file''),
     (''unwarp_reference'', Port ''output_image'', ''apply_fov_mask'', ''in_file''),
     (''apply_fov_mask'', Port ''out_file'', ''ref_msk_post'', ''in_file''),
     (''apply_fov_mask'', Port ''out_file'', ''outputnode'', ''out_reference''),
     (''ref_msk_post'', Port ''mask_file'', ''outputnode'', ''out_mask''),
     (''ref_msk_post'', Port ''out_report'', ''outputnode'', ''out_mask_report''),
     (''jac_dfm'', Port ''jacobian_image'', ''outputnode'', ''out_jacobian'')]"

definition sdc_edges :: "bool \<Rightarrow> bool \<Rightarrow> (string \<times> source \<times> string \<times> string) list" where
  "sdc_edges fmap_bspline fmap_demean =
     sdc_common
     @ (if fmap_bspline then []
        else [(''fmap_mask2ref_apply'', Port ''output_image'', ''gen_vsm'', ''mask_file'')])
     @ (if fmap_demean
        then [(''gen_vsm'', Port ''shift_out_file'', ''demean'', ''in_file''),
              (''fmap_mask2ref_apply'', Port ''output_image'', ''demean'', ''in_mask''),
              (''demean'', Port ''out'', ''vsm2dfm'', ''in_file'')]
        else [(''gen_vsm'', Port ''shift_out_file'', ''vsm2dfm'', ''in_file'')])"

definition pepolar_edges :: "(string \<times> source \<times> string \<times> string) list" where
  "pepolar_edges = [
     (''inputnode'', Port ''in_reference'', ''explicit_mask_epi'', ''in_file''),
     (''inputnode'', Port ''in_mask'', ''explicit_mask_epi'', ''mask_file''),
     (''inputnode'', Port ''in_reference'', ''merge_list'', ''in1''),
     (''mag_inu'', Port ''output_image'', ''cphdr'', ''in_file''),
     (''cphdr'', Port ''out_file'', ''skullstrip'', ''in_file''),
     (''skullstrip'', Port ''mask_file'', ''apply_skullstrip'', ''mask_file''),
     (''cphdr'', Port ''out_file'', ''merge_list'', ''in2''),
     (''merge_list'', Port ''out'', ''merge'', ''in_files''),
     (''inputnode'', Port ''name_source'', ''generate_idata'', ''name_source''),
     (''generate_idata'', Port ''out'', ''topup'', ''encoding_file''),
     (''merge'', Port ''merged_file'', ''topup'', ''in_file''),
     (''inputnode'', Port ''in_reference'', ''cphdr_warp'', ''hdr_file''),
     (''topup'', PortFn ''out_warps'' ''_pick_first'', ''cphdr_warp'', ''in_file''),
     (''cphdr_warp'', Port ''out_file'', ''to_ants'', ''in_file''),
     (''to_ants'', Port ''out'', ''unwarp_reference'', ''transforms''),
     (''inputnode'', Port ''in_reference'', ''unwarp_reference'', ''reference_image''),
     (''inputnode'', Port ''in_reference'', ''unwarp_reference'', ''input_image''),
     (''unwarp_reference'', Port ''output_image'', ''apply_jacobian'', ''in_file''),
     (''topup'', PortFn ''out_jacs'' ''_pick_first'', ''apply_jacobian'', ''operand_file''),
     (''apply_jacobian'', Port ''out_file'', ''ref_msk_post'', ''in_file''),
     (''unwarp_reference'', Port ''output_image'', ''outputnode'', ''out_reference''),
     (''ref_msk_post'', Port ''mask_file'', ''outputnode'', ''out_mask''),
     (''ref_msk_post'', Port ''out_report'', ''outputnode'', ''out_mask_report''),
     (''to_ants'', Port ''out'', ''outputnode'', ''out_warp''),
     (''topup'', PortFn ''out_jacs'' ''_pick_first'', ''outputnode'', ''out_jacobian'')]"

definition sdc_order :: "string list" where
  "sdc_order = [''inputnode'', ''meta'', ''explicit_mask_epi'', ''fmap2ref_reg'', ''ds_reg'',
     ''fmap2ref_apply'', ''fmap_mask2ref_apply'', ''ds_reg_vsm'', ''torads'', ''gen_vsm'',
     ''demean'', ''vsm2dfm'', ''jac_dfm'', ''unwarp_reference'', ''fieldmap_fov_mask'',
     ''fmap_fov2ref_apply'', ''apply_fov_mask'', ''ref_msk_post'', ''outputnode'']"

definition pepolar_order :: "string list" where
  "pepolar_order = [''inputnode'', ''explicit_mask_epi'', ''mag_inu'', ''cphdr'', ''skullstrip'',
     ''apply_skullstrip'', ''merge_list'', ''merge'', ''generate_idata'', ''topup'',
     ''cphdr_warp'', ''to_ants'', ''unwarp_reference'', ''apply_jacobian'', ''ref_msk_post'',
     ''outputnode'']"

subsection \<open>Example inputs\<close>

definition ex_shapes :: "string \<rightharpoonup> nat list" where
  "ex_shapes = [''sub-01_bold.nii.gz'' \<mapsto> [64, 64, 30, 100],
                ''sub-01_dir-AP_epi.nii.gz'' \<mapsto> [64, 64, 30],
                ''sub-01_dir-PA_epi.nii.gz'' \<mapsto> [64, 64, 30, 5]]"

definition ex_layout :: "string \<Rightarrow> string \<Rightarrow> string \<rightharpoonup> json" where
  "ex_layout bids_dir f =
     (if f = ''sub-01_dir-PA_epi.nii.gz''
      then [''TotalReadoutTime'' \<mapsto> JNum (1 / 10), ''PhaseEncodingDirection'' \<mapsto> JStr ''j'']
      else [''TotalReadoutTime'' \<mapsto> JNum (1 / 20), ''PhaseEncodingDirection'' \<mapsto> JStr ''j-''])"

definition ex_str :: "json \<Rightarrow> string" where
  "ex_str v = (case v of JStr s \<Rightarrow> s | JNum x \<Rightarrow> if x = 1 / 20 then ''0.05'' else ''0.1'')"

definition ex_fmaps :: "(string \<rightharpoonup> string) list" where
  "ex_fmaps = [[''epi'' \<mapsto> ''sub-01_dir-AP_epi.nii.gz''], [''epi'' \<mapsto> ''sub-01_dir-PA_epi.nii.gz'']]"






section \<open>Properties\<close>

subsection \<open>What \<open>connect\<close> builds\<close>

lemma edges_add_node [simp]: "edges (add_node g n) = edges g"
  by (simp add: add_node_def)

lemma add_node_edges_update [simp]:
  "add_node (g\<lparr>edges := es\<rparr>) n = (add_node g n)\<lparr>edges := es\<rparr>"
  by (simp add: add_node_def has_node_def)

lemma add_node_nodes_update [simp]: "(add_node g n)\<lparr>nodes := ns\<rparr> = g\<lparr>nodes := ns\<rparr>"
  by (simp add: add_node_def)

lemma find_app:
  "find P (xs @ ys) = (case find P xs of Some x \<Rightarrow> Some x | None \<Rightarrow> find P ys)"
  by (induction xs) auto

lemma has_node_find: "has_node g n \<longleftrightarrow> find_node (nodes g) n \<noteq> None"
  by (auto simp: has_node_def find_node_def find_None_iff)

lemma find_node_add_node:
  "find_node (nodes (add_node g x)) n =
     (case find_node (nodes g) n of
        Some y \<Rightarrow> Some y
      | None \<Rightarrow> if nname x = n then Some x else None)"
proof (cases "has_node g (nname x)")
  case True
  then show ?thesis
    by (auto simp: add_node_def has_node_find split: option.splits)
next
  case False
  then show ?thesis
    by (simp add: add_node_def find_node_def find_app split: option.splits)
qed

lemma conn_nodes_edges_update [simp]: "conn_nodes (g\<lparr>edges := es\<rparr>) cs = conn_nodes g cs"
proof (induction cs arbitrary: g)
  case Nil
  then show ?case by simp
next
  case (Cons c cs)
  obtain s d ps where c: "c = (s, d, ps)" by (cases c)
  show ?case by (simp add: c Cons.IH)
qed

lemma find_node_conn_nodes:
  "find_node (conn_nodes g cs) n =
     (case find_node (nodes g) n of
        Some y \<Rightarrow> Some y
      | None \<Rightarrow> find_node (conn_node_list cs) n)"
proof (induction cs arbitrary: g)
  case Nil
  then show ?case by (simp add: find_node_def split: option.splits)
next
  case (Cons c cs)
  obtain s d ps where c: "c = (s, d, ps)" by (cases c)
  show ?case
    by (simp add: c Cons.IH find_node_add_node) (simp add: c find_node_def split: option.splits)
qed

lemma nname_Node [simp]: "nname (Node i a n) = n"
  by (simp add: Node_def)

lemma nname_MapNode [simp]: "nname (MapNode i a f n) = n"
  by (simp add: MapNode_def)

lemma nname_set_input [simp]: "nname (set_input n k v) = nname n"
  by (simp add: set_input_def)

lemma is_connected_iff: "is_connected g d p \<longleftrightarrow> (d, p) \<in> set (map in_port (edges g))"
  by (auto simp: is_connected_def list_ex_iff in_port_def)

lemma connect_fields_eq:
  "distinct (map in_port (edges g @ field_edges s d ps)) \<Longrightarrow>
   connect_fields g s d ps =
     Inr ((add_node (add_node g s) d)\<lparr>edges := edges g @ field_edges s d ps\<rparr>)"
proof (induction ps arbitrary: g)
  case Nil
  then show ?case by (simp add: field_edges_def)
next
  case (Cons p ps)
  obtain sp dp where p: "p = (sp, dp)" by (cases p)
  let ?e = "\<lparr>src = nname s, src_port = sp, dst = nname d, dst_port = dp\<rparr>"
  let ?g = "(add_node (add_node g s) d)\<lparr>edges := edges g @ [?e]\<rparr>"
  from Cons.prems have nc: "\<not> is_connected g (nname d) dp"
    by (auto simp: is_connected_iff p field_edges_def in_port_def)
  have "distinct (map in_port (edges ?g @ field_edges s d ps))"
    using Cons.prems by (simp add: p field_edges_def)
  from Cons.IH[OF this] nc show ?case
    by (simp add: p field_edges_def add_node_def has_node_def)
qed

lemma connect_eq:
  "distinct (map in_port (edges g @ conn_edges cs)) \<Longrightarrow>
   connect g cs = Inr (g\<lparr>nodes := conn_nodes g cs, edges := edges g @ conn_edges cs\<rparr>)"
proof (induction cs arbitrary: g)
  case Nil
  then show ?case by simp
next
  case (Cons c cs)
  obtain s d ps where c: "c = (s, d, ps)" by (cases c)
  let ?g = "(add_node (add_node g s) d)\<lparr>edges := edges g @ field_edges s d ps\<rparr>"
  from Cons.prems have "distinct (map in_port (edges g @ field_edges s d ps))"
    by (auto simp: c)
  then have 1: "connect_fields g s d ps = Inr ?g"
    by (rule connect_fields_eq)
  from Cons.prems have "distinct (map in_port (edges ?g @ conn_edges cs))"
    by (simp add: c)
  from Cons.IH[OF this] 1 show ?case
    by (simp add: c)
qed

declare conn_nodes.simps [simp del] connect.simps [simp del] connect_fields.simps [simp del]

lemma feeders_tuple:
  "feeders g d p =
     map (\<lambda>(s, sp, d', dp). (s, sp))
       (filter (\<lambda>(s, sp, d', dp). d' = d \<and> dp = p) (map edge_tuple (edges g)))"
  by (simp add: feeders_def edge_tuple_def filter_map o_def)

lemma feeds_tuple:
  "feeds g s sp d dp \<longleftrightarrow> (s, sp, d, dp) \<in> set (map edge_tuple (edges g))"
  by (auto simp: feeds_def edge_tuple_def list_ex_iff)

lemma successors_tuple:
  "successors g s =
     map (\<lambda>(s', sp, d, dp). d) (filter (\<lambda>(s', sp, d, dp). s' = s) (map edge_tuple (edges g)))"
  by (simp add: successors_def edge_tuple_def filter_map o_def)

lemma edge_rel_tuple:
  "edge_rel g = set (map (\<lambda>(s, sp, d, dp). (s, d)) (map edge_tuple (edges g)))"
  by (simp add: edge_rel_def edge_tuple_def o_def)

lemma single_feed_tuple:
  "single_feed g = distinct (map (\<lambda>(s, sp, d, dp). (d, dp)) (map edge_tuple (edges g)))"
  by (simp add: single_feed_def in_port_def[abs_def] edge_tuple_def o_def)

lemma acyclic_by_order:
  assumes "list_all (\<lambda>(a, b). index_of topo a < index_of topo b) ps"
  shows "acyclic (set ps)"
proof (rule acyclicI_order[where f = "\<lambda>n. length topo - index_of topo n"])
  fix a b assume "(a, b) \<in> set ps"
  with assms have "index_of topo a < index_of topo b"
    by (auto simp: list_all_iff)
  moreover have "index_of topo a \<le> length topo" for a
    by (induction topo) auto
  ultimately show "length topo - index_of topo b < length topo - index_of topo a"
    by (metis diff_less_mono2 order.strict_trans2)
qed

lemma sdc_build:
  "\<exists>g. init_sdc_unwarp_wf rf rd nt bs dm dbg nm = Inr g \<and>
     map edge_tuple (edges g) = sdc_edges bs dm \<and>
     has_node g ''demean'' = dm"
  unfolding init_sdc_unwarp_wf_def Let_def sdc_edges_def
  apply (cases bs; cases dm)
  apply (simp_all add: connect_eq field_edges_def in_port_def Workflow_def
     edge_tuple_def sdc_common_def has_node_find find_node_conn_nodes)
  apply (simp_all add: find_node_def)
  done

lemma static_input_find:
  "static_input g n k =
     (case find_node (nodes g) n of None \<Rightarrow> None | Some x \<Rightarrow> map_of (rev (inputs x)) k)"
  by (simp add: static_input_def find_node_def)

lemma pepolar_build:
  assumes "epi_files fmaps = Inr epis"
  shows "\<exists>g. init_pepolar_unwarp_report_wf fmaps bids nm = Inr g \<and>
     map edge_tuple (edges g) = pepolar_edges \<and>
     static_input g ''mag_inu'' ''input_image'' = Some (PStrs epis) \<and>
     static_input g ''cphdr'' ''hdr_file'' = Some (PStrs epis) \<and>
     static_input g ''apply_skullstrip'' ''in_file'' = Some (PStrs epis) \<and>
     static_input g ''apply_jacobian'' ''operation'' = Some (PStr ''mul'')"
  unfolding init_pepolar_unwarp_report_wf_def Let_def pepolar_edges_def
  apply (simp add: assms connect_eq field_edges_def in_port_def Workflow_def
     edge_tuple_def static_input_find find_node_conn_nodes)
  apply (simp add: find_node_def)
  apply (simp add: set_input_def MapNode_def Node_def)
  done

lemma epi_files_ok:
  "list_all (\<lambda>fmap. fmap ''epi'' \<noteq> None) fmaps \<Longrightarrow>
   epi_files fmaps = Inr (map (\<lambda>fmap. the (fmap ''epi'')) fmaps)"
  by (induction fmaps) auto

lemma pepolar_build_fails:
  "epi_files fmaps = Inl e \<Longrightarrow> init_pepolar_unwarp_report_wf fmaps bids nm = Inl e"
  by (simp add: init_pepolar_unwarp_report_wf_def)

subsection \<open>The built graphs\<close>

lemma sdc_edges_acyclic:
  "acyclic (set (map (\<lambda>(s, sp, d, dp). (s, d)) (sdc_edges bs dm)))"
  by (rule acyclic_by_order[where topo = sdc_order], cases bs; cases dm)
     (simp_all add: sdc_edges_def sdc_common_def sdc_order_def)

lemma sdc_edges_single:
  "distinct (map (\<lambda>(s, sp, d, dp). (d, dp)) (sdc_edges bs dm))"
  by (cases bs; cases dm) (simp_all add: sdc_edges_def sdc_common_def)

lemma pepolar_edges_acyclic:
  "acyclic (set (map (\<lambda>(s, sp, d, dp). (s, d)) pepolar_edges))"
  by (rule acyclic_by_order[where topo = pepolar_order])
     (simp add: pepolar_edges_def pepolar_order_def)

lemma pepolar_edges_single:
  "distinct (map (\<lambda>(s, sp, d, dp). (d, dp)) pepolar_edges)"
  by (simp add: pepolar_edges_def)

text \<open>
  Claim C1. Every build of the fieldmap pipeline succeeds. With \<open>fmap_demean\<close> false the
  only connection into \<open>vsm2dfm.in_file\<close> comes from \<open>gen_vsm.shift_out_file\<close> and
  the graph has no \<open>demean\<close> node. With \<open>fmap_demean\<close> true the graph has the
  \<open>demean\<close> node, whose \<open>in_file\<close> comes from \<open>gen_vsm.shift_out_file\<close> and whose
  \<open>out\<close> is the only connection into \<open>vsm2dfm.in_file\<close>, and \<open>gen_vsm\<close> has no
  connection to \<open>vsm2dfm\<close>. For either value of the flag exactly one of the two
  topologies is built.
\<close>

theorem C1_demean_wiring:
  "\<exists>g. init_sdc_unwarp_wf rf rd nt bs dm dbg nm = Inr g \<and>
     (if dm then demean_topology g \<and> \<not> direct_topology g
      else direct_topology g \<and> \<not> demean_topology g)"
proof -
  from sdc_build[of rf rd nt bs dm dbg nm] obtain g where
    g: "init_sdc_unwarp_wf rf rd nt bs dm dbg nm = Inr g"
       "map edge_tuple (edges g) = sdc_edges bs dm" "has_node g ''demean'' = dm"
    by blast
  have "if dm then demean_topology g \<and> \<not> direct_topology g
        else direct_topology g \<and> \<not> demean_topology g"
    by (cases bs; cases dm)
       (simp_all add: demean_topology_def direct_topology_def feeders_tuple successors_tuple g
          sdc_edges_def sdc_common_def)
  with g(1) show ?thesis by blast
qed

theorem C1_demean_wiring_witness:
  "(\<exists>g. init_sdc_unwarp_wf (\<lambda>p r. r) ''.'' 8 False True False ''sdc_unwarp_wf'' = Inr g \<and>
        demean_topology g \<and> \<not> direct_topology g) \<and>
   (\<exists>g. init_sdc_unwarp_wf (\<lambda>p r. r) ''.'' 8 False False False ''sdc_unwarp_wf'' = Inr g \<and>
        direct_topology g \<and> \<not> demean_topology g)"
  using C1_demean_wiring[of "\<lambda>p r. r" "''.''" 8 False True False "''sdc_unwarp_wf''"]
        C1_demean_wiring[of "\<lambda>p r. r" "''.''" 8 False False False "''sdc_unwarp_wf''"]
  by simp

text \<open>
  Claim C4. The graph built by the fieldmap pipeline, for every value of
  \<open>fmap_bspline\<close> and \<open>fmap_demean\<close>, and the graph built by the PEPOLAR pipeline, for
  every list of fieldmaps that each have an \<open>epi\<close> entry, have no cycle, and no input
  field of any node has more than one incoming connection.
\<close>

theorem C4_acyclic_single_feed:
  assumes "list_all (\<lambda>fmap. fmap ''epi'' \<noteq> None) fmaps"
  shows "(\<exists>g. init_sdc_unwarp_wf rf rd nt bs dm dbg nm = Inr g \<and>
              acyclic (edge_rel g) \<and> single_feed g) \<and>
         (\<exists>g. init_pepolar_unwarp_report_wf fmaps bids nm' = Inr g \<and>
              acyclic (edge_rel g) \<and> single_feed g)"
proof
  from sdc_build[of rf rd nt bs dm dbg nm] obtain g where
    g: "init_sdc_unwarp_wf rf rd nt bs dm dbg nm = Inr g"
       "map edge_tuple (edges g) = sdc_edges bs dm"
    by blast
  have "acyclic (edge_rel g)"
    unfolding edge_rel_tuple g(2) by (rule sdc_edges_acyclic)
  moreover have "single_feed g"
    unfolding single_feed_tuple g(2) by (rule sdc_edges_single)
  ultimately show "\<exists>g. init_sdc_unwarp_wf rf rd nt bs dm dbg nm = Inr g \<and>
              acyclic (edge_rel g) \<and> single_feed g"
    using g(1) by blast
next
  from pepolar_build[OF epi_files_ok[OF assms], of bids nm'] obtain g where
    g: "init_pepolar_unwarp_report_wf fmaps bids nm' = Inr g"
       "map edge_tuple (edges g) = pepolar_edges"
    by blast
  have "acyclic (edge_rel g)"
    unfolding edge_rel_tuple g(2) by (rule pepolar_edges_acyclic)
  moreover have "single_feed g"
    unfolding single_feed_tuple g(2) by (rule pepolar_edges_single)
  ultimately show "\<exists>g. init_pepolar_unwarp_report_wf fmaps bids nm' = Inr g \<and>
              acyclic (edge_rel g) \<and> single_feed g"
    using g(1) by blast
qed

theorem C4_acyclic_single_feed_witness:
  "(\<exists>g. init_sdc_unwarp_wf (\<lambda>p r. r) ''.'' 8 False True False ''sdc_unwarp_wf'' = Inr g \<and>
        acyclic (edge_rel g) \<and> single_feed g) \<and>
   (\<exists>g. init_pepolar_unwarp_report_wf
           [[''epi'' \<mapsto> ''sub-01_dir-AP_epi.nii.gz''], [''epi'' \<mapsto> ''sub-01_dir-PA_epi.nii.gz'']]
           ''/data'' ''pepolar_unwarp_wf'' = Inr g \<and>
        acyclic (edge_rel g) \<and> single_feed g)"
  using C4_acyclic_single_feed[of
      "[[''epi'' \<mapsto> ''sub-01_dir-AP_epi.nii.gz''], [''epi'' \<mapsto> ''sub-01_dir-PA_epi.nii.gz'']]"
      "\<lambda>p r. r" "''.''" 8 False True False "''sdc_unwarp_wf''" "''/data''" "''pepolar_unwarp_wf''"]
  by simp

text \<open>
  Claim C2, as stated, fails on the code. The input \<open>in2\<close> of \<open>merge_list\<close> is
  connected to \<open>cphdr.out_file\<close>, the bias-corrected volumes with repaired headers;
  the connection from \<open>apply_skullstrip.out_file\<close> is commented out in the source, and
  the masked volumes of \<open>apply_skullstrip\<close> go nowhere.
\<close>

theorem C2_counterexample:
  "case init_pepolar_unwarp_report_wf [[''epi'' \<mapsto> ''sub-01_dir-PA_epi.nii.gz'']]
          ''/data'' ''pepolar_unwarp_wf'' of
     Inl e \<Rightarrow> False
   | Inr g \<Rightarrow> \<not> feeds g ''apply_skullstrip'' (Port ''out_file'') ''merge_list'' ''in2'' \<and>
              feeders g ''merge_list'' ''in2'' = [(''cphdr'', Port ''out_file'')] \<and>
              successors g ''apply_skullstrip'' = []"
proof -
  have "epi_files [[''epi'' \<mapsto> ''sub-01_dir-PA_epi.nii.gz'']] = Inr [''sub-01_dir-PA_epi.nii.gz'']"
    by simp
  from pepolar_build[OF this, of "''/data''" "''pepolar_unwarp_wf''"] obtain g where
    g: "init_pepolar_unwarp_report_wf [[''epi'' \<mapsto> ''sub-01_dir-PA_epi.nii.gz'']]
          ''/data'' ''pepolar_unwarp_wf'' = Inr g"
       "map edge_tuple (edges g) = pepolar_edges"
    by blast
  have "\<not> feeds g ''apply_skullstrip'' (Port ''out_file'') ''merge_list'' ''in2''"
       "feeders g ''merge_list'' ''in2'' = [(''cphdr'', Port ''out_file'')]"
       "successors g ''apply_skullstrip'' = []"
    by (simp_all add: feeds_tuple feeders_tuple successors_tuple g(2) pepolar_edges_def)
  then show ?thesis by (simp add: g(1))
qed

text \<open>
  Claim C2, amended. In every graph built by the PEPOLAR pipeline the concatenating node
  \<open>merge\<close> receives the output of \<open>merge_list\<close>, whose first input is the reference
  image (\<open>inputnode.in_reference\<close>) and whose second input is the output list of the
  fan-out \<open>cphdr\<close>: each opposite-phase volume, in the order of the \<open>fmaps\<close> list,
  after bias correction (\<open>mag_inu\<close>) and header repair against its own original file,
  not masked. The per-volume masks are estimated (\<open>skullstrip\<close>) and handed to
  \<open>apply_skullstrip\<close>, which is applied to the original files and has no outgoing
  connection.
\<close>

theorem C2_merge_inputs:
  assumes "list_all (\<lambda>fmap. fmap ''epi'' \<noteq> None) fmaps"
  shows "\<exists>g. init_pepolar_unwarp_report_wf fmaps bids_dir nm = Inr g \<and>
     feeders g ''merge'' ''in_files'' = [(''merge_list'', Port ''out'')] \<and>
     feeders g ''merge_list'' ''in1'' = [(''inputnode'', Port ''in_reference'')] \<and>
     feeders g ''merge_list'' ''in2'' = [(''cphdr'', Port ''out_file'')] \<and>
     feeders g ''cphdr'' ''in_file'' = [(''mag_inu'', Port ''output_image'')] \<and>
     static_input g ''cphdr'' ''hdr_file'' = Some (PStrs (map (\<lambda>fmap. the (fmap ''epi'')) fmaps)) \<and>
     feeders g ''mag_inu'' ''input_image'' = [] \<and>
     static_input g ''mag_inu'' ''input_image'' = Some (PStrs (map (\<lambda>fmap. the (fmap ''epi'')) fmaps)) \<and>
     feeders g ''skullstrip'' ''in_file'' = [(''cphdr'', Port ''out_file'')] \<and>
     feeders g ''apply_skullstrip'' ''mask_file'' = [(''skullstrip'', Port ''mask_file'')] \<and>
     feeders g ''apply_skullstrip'' ''in_file'' = [] \<and>
     static_input g ''apply_skullstrip'' ''in_file'' = Some (PStrs (map (\<lambda>fmap. the (fmap ''epi'')) fmaps)) \<and>
     successors g ''apply_skullstrip'' = []"
proof -
  from pepolar_build[OF epi_files_ok[OF assms], of bids_dir nm] obtain g where
    g: "init_pepolar_unwarp_report_wf fmaps bids_dir nm = Inr g"
       "map edge_tuple (edges g) = pepolar_edges"
       "static_input g ''mag_inu'' ''input_image'' = Some (PStrs (map (\<lambda>fmap. the (fmap ''epi'')) fmaps))"
       "static_input g ''cphdr'' ''hdr_file'' = Some (PStrs (map (\<lambda>fmap. the (fmap ''epi'')) fmaps))"
       "static_input g ''apply_skullstrip'' ''in_file'' = Some (PStrs (map (\<lambda>fmap. the (fmap ''epi'')) fmaps))"
    by blast
  have "feeders g ''merge'' ''in_files'' = [(''merge_list'', Port ''out'')]"
       "feeders g ''merge_list'' ''in1'' = [(''inputnode'', Port ''in_reference'')]"
       "feeders g ''merge_list'' ''in2'' = [(''cphdr'', Port ''out_file'')]"
       "feeders g ''cphdr'' ''in_file'' = [(''mag_inu'', Port ''output_image'')]"
       "feeders g ''mag_inu'' ''input_image'' = []"
       "feeders g ''skullstrip'' ''in_file'' = [(''cphdr'', Port ''out_file'')]"
       "feeders g ''apply_skullstrip'' ''mask_file'' = [(''skullstrip'', Port ''mask_file'')]"
       "feeders g ''apply_skullstrip'' ''in_file'' = []"
       "successors g ''apply_skullstrip'' = []"
    by (simp_all add: feeders_tuple successors_tuple g(2) pepolar_edges_def)
  with g show ?thesis by blast
qed

theorem C2_merge_inputs_witness:
  "list_all (\<lambda>fmap. fmap ''epi'' \<noteq> None) [[''epi'' \<mapsto> ''sub-01_dir-AP_epi.nii.gz''], [''epi'' \<mapsto> ''sub-01_dir-PA_epi.nii.gz'']] \<and>
   (\<exists>g. init_pepolar_unwarp_report_wf [[''epi'' \<mapsto> ''sub-01_dir-AP_epi.nii.gz''], [''epi'' \<mapsto> ''sub-01_dir-PA_epi.nii.gz'']] ''/data'' ''pepolar_unwarp_wf'' = Inr g \<and>
     feeders g ''merge'' ''in_files'' = [(''merge_list'', Port ''out'')] \<and>
     feeders g ''merge_list'' ''in1'' = [(''inputnode'', Port ''in_reference'')] \<and>
     feeders g ''merge_list'' ''in2'' = [(''cphdr'', Port ''out_file'')] \<and>
     feeders g ''cphdr'' ''in_file'' = [(''mag_inu'', Port ''output_image'')] \<and>
     static_input g ''cphdr'' ''hdr_file'' = Some (PStrs (map (\<lambda>fmap. the (fmap ''epi'')) [[''epi'' \<mapsto> ''sub-01_dir-AP_epi.nii.gz''], [''epi'' \<mapsto> ''sub-01_dir-PA_epi.nii.gz'']])) \<and>
     feeders g ''mag_inu'' ''input_image'' = [] \<and>
     static_input g ''mag_inu'' ''input_image'' = Some (PStrs (map (\<lambda>fmap. the (fmap ''epi'')) [[''epi'' \<mapsto> ''sub-01_dir-AP_epi.nii.gz''], [''epi'' \<mapsto> ''sub-01_dir-PA_epi.nii.gz'']])) \<and>
     feeders g ''skullstrip'' ''in_file'' = [(''cphdr'', Port ''out_file'')] \<and>
     feeders g ''apply_skullstrip'' ''mask_file'' = [(''skullstrip'', Port ''mask_file'')] \<and>
     feeders g ''apply_skullstrip'' ''in_file'' = [] \<and>
     static_input g ''apply_skullstrip'' ''in_file'' = Some (PStrs (map (\<lambda>fmap. the (fmap ''epi'')) [[''epi'' \<mapsto> ''sub-01_dir-AP_epi.nii.gz''], [''epi'' \<mapsto> ''sub-01_dir-PA_epi.nii.gz'']])) \<and>
     successors g ''apply_skullstrip'' = [])"
  using C2_merge_inputs[of "[[''epi'' \<mapsto> ''sub-01_dir-AP_epi.nii.gz''], [''epi'' \<mapsto> ''sub-01_dir-PA_epi.nii.gz'']]"
      "''/data''" "''pepolar_unwarp_wf''"]
  by simp

text \<open>
  Claim C3, as stated, fails on the code. The boundary output \<open>out_reference\<close> is
  connected to \<open>unwarp_reference.output_image\<close>, the unwarped reference before the
  Jacobian multiplication, and not to \<open>apply_jacobian.out_file\<close>.
\<close>

theorem C3_counterexample:
  "case init_pepolar_unwarp_report_wf [[''epi'' \<mapsto> ''sub-01_dir-PA_epi.nii.gz'']]
          ''/data'' ''pepolar_unwarp_wf'' of
     Inl e \<Rightarrow> False
   | Inr g \<Rightarrow> \<not> feeds g ''apply_jacobian'' (Port ''out_file'') ''outputnode'' ''out_reference'' \<and>
              feeders g ''outputnode'' ''out_reference'' =
                [(''unwarp_reference'', Port ''output_image'')]"
proof -
  have "epi_files [[''epi'' \<mapsto> ''sub-01_dir-PA_epi.nii.gz'']] = Inr [''sub-01_dir-PA_epi.nii.gz'']"
    by simp
  from pepolar_build[OF this, of "''/data''" "''pepolar_unwarp_wf''"] obtain g where
    g: "init_pepolar_unwarp_report_wf [[''epi'' \<mapsto> ''sub-01_dir-PA_epi.nii.gz'']]
          ''/data'' ''pepolar_unwarp_wf'' = Inr g"
       "map edge_tuple (edges g) = pepolar_edges"
    by blast
  have "\<not> feeds g ''apply_jacobian'' (Port ''out_file'') ''outputnode'' ''out_reference''"
       "feeders g ''outputnode'' ''out_reference'' = [(''unwarp_reference'', Port ''output_image'')]"
    by (simp_all add: feeds_tuple feeders_tuple g(2) pepolar_edges_def)
  then show ?thesis by (simp add: g(1))
qed

text \<open>
  Claim C3, amended. In every graph built by the PEPOLAR pipeline the unwarped reference
  is multiplied (\<open>apply_jacobian\<close>, operation \<open>mul\<close>) by the first Jacobian map
  returned by the blip-pair estimator, and the product feeds the brain-mask
  recomputation \<open>ref_msk_post\<close> and nothing else. The boundary output
  \<open>out_reference\<close> delivers the unwarped reference itself, and \<open>out_jacobian\<close> the
  first Jacobian map.
\<close>

theorem C3_jacobian_wiring:
  assumes "list_all (\<lambda>fmap. fmap ''epi'' \<noteq> None) fmaps"
  shows "\<exists>g. init_pepolar_unwarp_report_wf fmaps bids_dir nm = Inr g \<and>
     static_input g ''apply_jacobian'' ''operation'' = Some (PStr ''mul'') \<and>
     feeders g ''apply_jacobian'' ''in_file'' = [(''unwarp_reference'', Port ''output_image'')] \<and>
     feeders g ''apply_jacobian'' ''operand_file'' = [(''topup'', PortFn ''out_jacs'' ''_pick_first'')] \<and>
     (\<forall>j js. pick_first (j # js) = Inr j) \<and>
     feeders g ''ref_msk_post'' ''in_file'' = [(''apply_jacobian'', Port ''out_file'')] \<and>
     successors g ''apply_jacobian'' = [''ref_msk_post''] \<and>
     feeders g ''outputnode'' ''out_reference'' = [(''unwarp_reference'', Port ''output_image'')] \<and>
     feeders g ''outputnode'' ''out_jacobian'' = [(''topup'', PortFn ''out_jacs'' ''_pick_first'')]"
proof -
  from pepolar_build[OF epi_files_ok[OF assms], of bids_dir nm] obtain g where
    g: "init_pepolar_unwarp_report_wf fmaps bids_dir nm = Inr g"
       "map edge_tuple (edges g) = pepolar_edges"
       "static_input g ''apply_jacobian'' ''operation'' = Some (PStr ''mul'')"
    by blast
  have "feeders g ''apply_jacobian'' ''in_file'' = [(''unwarp_reference'', Port ''output_image'')]"
       "feeders g ''apply_jacobian'' ''operand_file'' = [(''topup'', PortFn ''out_jacs'' ''_pick_first'')]"
       "feeders g ''ref_msk_post'' ''in_file'' = [(''apply_jacobian'', Port ''out_file'')]"
       "successors g ''apply_jacobian'' = [''ref_msk_post'']"
       "feeders g ''outputnode'' ''out_reference'' = [(''unwarp_reference'', Port ''output_image'')]"
       "feeders g ''outputnode'' ''out_jacobian'' = [(''topup'', PortFn ''out_jacs'' ''_pick_first'')]"
    by (simp_all add: feeders_tuple successors_tuple g(2) pepolar_edges_def)
  moreover have "\<forall>j js. pick_first (j # js) = Inr j"
    by (simp add: pick_first_def)
  ultimately show ?thesis using g by blast
qed

theorem C3_jacobian_wiring_witness:
  "list_all (\<lambda>fmap. fmap ''epi'' \<noteq> None) [[''epi'' \<mapsto> ''sub-01_dir-PA_epi.nii.gz'']] \<and>
   (\<exists>g. init_pepolar_unwarp_report_wf [[''epi'' \<mapsto> ''sub-01_dir-PA_epi.nii.gz'']] ''/data'' ''pepolar_unwarp_wf'' = Inr g \<and>
     static_input g ''apply_jacobian'' ''operation'' = Some (PStr ''mul'') \<and>
     feeders g ''apply_jacobian'' ''in_file'' = [(''unwarp_reference'', Port ''output_image'')] \<and>
     feeders g ''apply_jacobian'' ''operand_file'' = [(''topup'', PortFn ''out_jacs'' ''_pick_first'')] \<and>
     (\<forall>j js. pick_first (j # js) = Inr j) \<and>
     feeders g ''ref_msk_post'' ''in_file'' = [(''apply_jacobian'', Port ''out_file'')] \<and>
     successors g ''apply_jacobian'' = [''ref_msk_post''] \<and>
     feeders g ''outputnode'' ''out_reference'' = [(''unwarp_reference'', Port ''output_image'')] \<and>
     feeders g ''outputnode'' ''out_jacobian'' = [(''topup'', PortFn ''out_jacs'' ''_pick_first'')])"
  using C3_jacobian_wiring[of "[[''epi'' \<mapsto> ''sub-01_dir-PA_epi.nii.gz'']]"
      "''/data''" "''pepolar_unwarp_wf''"]
  by simp

subsection \<open>The acquisition-parameter table\<close>

lemma gen_row_spec:
  "spec_row py_str (get_metadata f) = Some r \<Longrightarrow> gen_row get_metadata py_str f = Inr r"
  by (auto simp: spec_row_def gen_row_def axis_index_def Let_def
           split: option.splits json.splits if_splits)

lemma spec_row_shape:
  "spec_row py_str meta = Some r \<Longrightarrow>
   length r = 4 \<and> length (filter (\<lambda>x. x \<noteq> ''0'') (take 3 r)) = 1 \<and>
   set (filter (\<lambda>x. x \<noteq> ''0'') (take 3 r)) \<subseteq> {''1'', ''-1''}"
  by (auto simp: spec_row_def Let_def split: option.splits json.splits if_splits)

lemma gen_line_spec:
  assumes "nb_shape f = Some sh" "oneline \<or> 3 \<le> length sh"
      and "spec_row py_str (get_metadata f) = Some r"
  shows "gen_line nb_shape get_metadata py_str f oneline = Inr (render r)"
  using assms gen_row_spec[of py_str get_metadata f r]
  by (auto simp: gen_line_def render_def Let_def numeral_eq_Suc)

lemma write_fmaps_spec:
  assumes "map (\<lambda>fmap. fmap ''epi'') fmaps = map Some epis"
      and "\<forall>f\<in>set epis. \<exists>sh. nb_shape f = Some sh \<and> 3 \<le> length sh"
      and "\<forall>f\<in>set epis. spec_row py_str (get_metadata f) \<noteq> None"
  shows "write_fmaps nb_shape get_metadata py_str fmaps fp =
           Inr (fp @ concat (map (\<lambda>f. render (the (spec_row py_str (get_metadata f)))) epis))"
  using assms
proof (induction fmaps arbitrary: epis fp)
  case Nil
  then show ?case by simp
next
  case (Cons fmap fmaps)
  from Cons.prems(1) obtain f fs where epis: "epis = f # fs" "fmap ''epi'' = Some f"
      "map (\<lambda>fmap. fmap ''epi'') fmaps = map Some fs"
    by (cases epis) auto
  from Cons.prems(2,3) epis(1) obtain sh r where
    f: "nb_shape f = Some sh" "3 \<le> length sh" "spec_row py_str (get_metadata f) = Some r"
    by auto
  have line: "gen_line nb_shape get_metadata py_str f False = Inr (render r)"
    using f by (intro gen_line_spec) auto
  have "write_fmaps nb_shape get_metadata py_str fmaps (fp @ render r) =
          Inr ((fp @ render r) @
               concat (map (\<lambda>f. render (the (spec_row py_str (get_metadata f)))) fs))"
    using Cons.prems(2,3) epis by (intro Cons.IH) auto
  then show ?case by (simp add: epis line f)
qed

text \<open>
  Claim C6. For a reference volume and \<open>N\<close> opposite-phase volumes whose files can be
  loaded (the opposite-phase ones with three or more dimensions) and whose metadata has
  a readout time and a phase-encoding direction starting with an axis letter, the text
  written by \<open>_generate_idata\<close> is \<open>N + 1\<close> rows, the reference first and then the
  opposite-phase volumes in input order. Each row is computed from the metadata of its
  own volume alone (row 0 from the reference's): it is the row the spec describes, with
  four entries, exactly one of the three axis entries not \<open>0\<close>, that entry \<open>1\<close> or
  \<open>-1\<close> by the volume's axis letter and polarity, and the readout time of the volume
  last.
\<close>

theorem C6_acquisition_table:
  assumes "map (\<lambda>fmap. fmap ''epi'') fmaps = map Some epis"
      and "nb_shape name_source \<noteq> None"
      and "\<forall>f\<in>set epis. \<exists>sh. nb_shape f = Some sh \<and> 3 \<le> length sh"
      and "\<forall>f\<in>set (name_source # epis). spec_row py_str (BIDSLayout bids_dir f) \<noteq> None"
  shows "\<exists>rows.
     generate_idata nb_shape BIDSLayout py_str name_source fmaps bids_dir
       = Inr (concat (map render rows)) \<and>
     length rows = length fmaps + 1 \<and>
     rows = map (\<lambda>f. the (spec_row py_str (BIDSLayout bids_dir f))) (name_source # epis) \<and>
     (\<forall>i<length rows.
        gen_row (BIDSLayout bids_dir) py_str ((name_source # epis) ! i) = Inr (rows ! i) \<and>
        length (rows ! i) = 4 \<and>
        length (filter (\<lambda>x. x \<noteq> ''0'') (take 3 (rows ! i))) = 1 \<and>
        set (filter (\<lambda>x. x \<noteq> ''0'') (take 3 (rows ! i))) \<subseteq> {''1'', ''-1''})"
proof -
  let ?M = "BIDSLayout bids_dir"
  let ?row = "\<lambda>f. the (spec_row py_str (?M f))"
  let ?rows = "map ?row (name_source # epis)"
  from assms(2) obtain sh0 where sh0: "nb_shape name_source = Some sh0" by auto
  from assms(4) obtain r0 where r0: "spec_row py_str (?M name_source) = Some r0" by auto
  have first: "gen_line nb_shape ?M py_str name_source True = Inr (render r0)"
    using sh0 r0 by (intro gen_line_spec) auto
  have rest: "write_fmaps nb_shape ?M py_str fmaps (render r0) =
                Inr (render r0 @ concat (map (\<lambda>f. render (?row f)) epis))"
    using assms by (intro write_fmaps_spec) auto
  have 1: "generate_idata nb_shape BIDSLayout py_str name_source fmaps bids_dir
             = Inr (concat (map render ?rows))"
    by (simp add: generate_idata_def first rest r0 o_def)
  have len: "length epis = length fmaps"
    using assms(1) by (metis length_map)
  have 3: "gen_row ?M py_str ((name_source # epis) ! i) = Inr (?rows ! i) \<and>
        length (?rows ! i) = 4 \<and>
        length (filter (\<lambda>x. x \<noteq> ''0'') (take 3 (?rows ! i))) = 1 \<and>
        set (filter (\<lambda>x. x \<noteq> ''0'') (take 3 (?rows ! i))) \<subseteq> {''1'', ''-1''}"
    if "i < length ?rows" for i
  proof -
    let ?f = "(name_source # epis) ! i"
    from that have "?f \<in> set (name_source # epis)"
      by (metis length_map nth_mem)
    with assms(4) obtain r where r: "spec_row py_str (?M ?f) = Some r" by blast
    from that have ri: "?rows ! i = r"
      using r by (simp del: list.map)
    show ?thesis
      unfolding ri using gen_row_spec[of py_str ?M ?f r] spec_row_shape[of py_str "?M ?f" r] r by simp
  qed
  show ?thesis
    by (rule exI[of _ ?rows]) (use 1 3 len in auto)
qed

theorem C6_acquisition_table_witness:
  "generate_idata ex_shapes ex_layout ex_str ''sub-01_bold.nii.gz'' ex_fmaps ''/data''
     = Inr (concat (map render [[''0'', ''-1'', ''0'', ''0.05''],
                                [''0'', ''-1'', ''0'', ''0.05''],
                                [''0'', ''1'', ''0'', ''0.1'']]))"
proof -
  have 1: "map (\<lambda>fmap. fmap ''epi'') ex_fmaps
             = map Some [''sub-01_dir-AP_epi.nii.gz'', ''sub-01_dir-PA_epi.nii.gz'']"
    by (simp add: ex_fmaps_def)
  have 2: "ex_shapes ''sub-01_bold.nii.gz'' \<noteq> None"
    by (simp add: ex_shapes_def)
  have 3: "\<forall>f\<in>set [''sub-01_dir-AP_epi.nii.gz'', ''sub-01_dir-PA_epi.nii.gz''].
             \<exists>sh. ex_shapes f = Some sh \<and> 3 \<le> length sh"
    by (simp add: ex_shapes_def)
  have 4: "\<forall>f\<in>set [''sub-01_bold.nii.gz'', ''sub-01_dir-AP_epi.nii.gz'', ''sub-01_dir-PA_epi.nii.gz''].
             spec_row ex_str (ex_layout ''/data'' f) \<noteq> None"
    by (simp add: spec_row_def ex_layout_def)
  from C6_acquisition_table[where BIDSLayout = ex_layout and bids_dir = "''/data''"
         and py_str = ex_str and nb_shape = ex_shapes and name_source = "''sub-01_bold.nii.gz''"
         and fmaps = ex_fmaps
         and epis = "[''sub-01_dir-AP_epi.nii.gz'', ''sub-01_dir-PA_epi.nii.gz'']", OF 1 2 3 4]
  show ?thesis
    by (simp add: spec_row_def ex_layout_def ex_str_def endswith_def)
qed

text \<open>
  Claim C8, as stated, fails on the code for the FUGUE-direction conversion:
  \<open>_get_pedir_fugue\<close> only replaces letters and returns the code \<open>q-\<close> unchanged.
\<close>

theorem C8_counterexample:
  "get_pedir_fugue [''PhaseEncodingDirection'' \<mapsto> JStr ''q-''] = Inr ''q-''"
  by (simp add: get_pedir_fugue_def replace_char_def)

text \<open>
  Claim C8, amended. For a phase-encoding code whose first character is not one of
  \<open>i\<close>, \<open>j\<close>, \<open>k\<close>, the construction of an acquisition-table row fails (with a
  \<open>KeyError\<close> for that character when the readout time is present), and so does
  \<open>_gen_line\<close>; no row is produced. The FUGUE-direction conversion does not validate:
  it returns the code with every \<open>i\<close>, \<open>j\<close>, \<open>k\<close> replaced by \<open>x\<close>, \<open>y\<close>, \<open>z\<close>, and a
  code without these letters is passed through unchanged.
\<close>

theorem C8_pe_code_handling:
  assumes "get_metadata in_file ''PhaseEncodingDirection'' = Some (JStr pe)"
      and "take 1 pe \<notin> {''i'', ''j'', ''k''}"
  shows "(\<exists>e. gen_row get_metadata py_str in_file = Inl e) \<and>
         (\<exists>e. gen_line nb_shape get_metadata py_str in_file oneline = Inl e) \<and>
         (get_metadata in_file ''TotalReadoutTime'' \<noteq> None \<longrightarrow>
            gen_row get_metadata py_str in_file = Inl (KeyError (take 1 pe))) \<and>
         get_pedir_fugue (get_metadata in_file) =
           Inr (replace_char CHR ''k'' CHR ''z''
                 (replace_char CHR ''j'' CHR ''y'' (replace_char CHR ''i'' CHR ''x'' pe))) \<and>
         (set pe \<inter> {CHR ''i'', CHR ''j'', CHR ''k''} = {} \<longrightarrow>
            get_pedir_fugue (get_metadata in_file) = Inr pe)"
proof -
  have row: "\<exists>e. gen_row get_metadata py_str in_file = Inl e"
    using assms by (auto simp: gen_row_def axis_index_def Let_def split: option.splits)
  have line: "\<exists>e. gen_line nb_shape get_metadata py_str in_file oneline = Inl e"
    using row by (auto simp: gen_line_def Let_def numeral_eq_Suc split: option.splits)
  have key: "get_metadata in_file ''TotalReadoutTime'' \<noteq> None \<longrightarrow>
            gen_row get_metadata py_str in_file = Inl (KeyError (take 1 pe))"
    using assms by (auto simp: gen_row_def axis_index_def Let_def split: option.splits)
  have same: "replace_char a b s = s" if "a \<notin> set s" for a b s
    using that by (induction s) (auto simp: replace_char_def)
  have fugue: "get_pedir_fugue (get_metadata in_file) =
           Inr (replace_char CHR ''k'' CHR ''z''
                 (replace_char CHR ''j'' CHR ''y'' (replace_char CHR ''i'' CHR ''x'' pe)))"
    using assms(1) by (simp add: get_pedir_fugue_def)
  have "set pe \<inter> {CHR ''i'', CHR ''j'', CHR ''k''} = {} \<longrightarrow>
          get_pedir_fugue (get_metadata in_file) = Inr pe"
    by (auto simp: fugue same)
  with row line key fugue show ?thesis by blast
qed

theorem C8_pe_code_handling_witness:
  "gen_row (\<lambda>f. [''TotalReadoutTime'' \<mapsto> JNum (1 / 20), ''PhaseEncodingDirection'' \<mapsto> JStr ''q-''])
     ex_str ''sub-01_bold.nii.gz'' = Inl (KeyError ''q'') \<and>
   get_pedir_fugue [''TotalReadoutTime'' \<mapsto> JNum (1 / 20), ''PhaseEncodingDirection'' \<mapsto> JStr ''q-'']
     = Inr ''q-''"
  using C8_pe_code_handling[of
      "\<lambda>f. [''TotalReadoutTime'' \<mapsto> JNum (1 / 20), ''PhaseEncodingDirection'' \<mapsto> JStr ''q-'']"
      "''sub-01_bold.nii.gz''" "''q-''" ex_str ex_shapes False]
  by (simp add: replace_char_def)



subsection \<open>Image arithmetic\<close>









text \<open>Selection, sorting under a monotone map, and the median.\<close>

lemma select_one_Nil [simp]: "select k [] msk = []"
  by (induction msk) auto














lemma fmul_exact: "fmul (\<lambda>x. x) (fmul (\<lambda>x. x) (Fin a) (Fin 2)) (Fin pi) = Fin (a * (2 * pi))"
  by simp










end
